theory Spec2Isabelle
  imports Main "HOL-Library.AList"
begin

section \<open>Data model\<close>

text \<open>
  The controller \<^verbatim>\<open>controllers/user.js\<close> talks to a MongoDB collection of User
  documents through mongoose. Documents are records; the collection is a list in its
  natural order. Identifiers are abstract; a timestamp is the number of milliseconds
  since the epoch, as a JavaScript \<^verbatim>\<open>Date\<close> holds it.
\<close>

type_synonym oid = nat
type_synonym date = int

text \<open>
  An identifier arrives in a request as a string (\<^verbatim>\<open>req.params.id\<close>,
  \<^verbatim>\<open>req.body._id\<close>). Only the outcome of casting it to an ObjectId matters to the
  controller: either the string denotes an identifier, or the cast fails.
\<close>

datatype raw_id = WellFormed oid | Malformed

fun castObjectId :: "raw_id \<Rightarrow> oid option" where
  "castObjectId (WellFormed i) = Some i"
| "castObjectId Malformed = None"

record scan_event =
  product :: oid
  date_scan :: date
  owner :: bool

record user =
  uid :: oid  \<comment> \<open>the document's \<^verbatim>\<open>_id\<close>\<close>
  fullname :: string
  mail :: string
  password :: string  \<comment> \<open>the stored hash\<close>
  timezone :: string
  registration_date :: date
  roles :: "string list"
  number_scan :: int
  history :: "scan_event list"

record product_doc =
  pid :: oid  \<comment> \<open>the document's \<^verbatim>\<open>_id\<close>\<close>
  pname :: string
  barcode :: string

record store =
  users :: "user list"
  products :: "product_doc list"

section \<open>Promises, errors and responses\<close>

datatype error = CastError | StoreError | ImmutableField | CompareError

text \<open>A promise that has settled: resolved with a value, or rejected with an error.\<close>

datatype 'a promise = Resolved 'a | Rejected error

text \<open>
  Every call to the store may be rejected for a reason outside the controller (the
  connection, a time-out). Each model of a mongoose call takes that as its first argument:
  \<open>None\<close> when the store answers, \<open>Some e\<close> when the call is rejected with \<open>e\<close>.
\<close>

type_synonym fault = "error option"

text \<open>
  The fixed texts of the responses. \<open>ScanAdded\<close> is the message of line 26,
  \<open>ProfileUpdated\<close> of line 209, \<open>Authenticated\<close> of line 258; \<open>UnknownUser\<close> and
  \<open>WrongPassword\<close> are the error texts of lines 249 and 255.
\<close>

datatype message = ScanAdded | ProfileUpdated | Authenticated
datatype refusal = UnknownUser | WrongPassword

text \<open>The projection of \<^verbatim>\<open>findOne\<close> in line 190 (the \<^verbatim>\<open>_id\<close> is always included).\<close>

record profile =
  profile_id :: oid
  profile_fullname :: string
  profile_mail :: string
  profile_timezone :: string
  profile_number_scan :: int
  profile_registration_date :: date

text \<open>The rows of the two aggregations of \<^verbatim>\<open>getStatsAndLastProduct\<close> and of
  \<^verbatim>\<open>getHistoryOfUser\<close>.\<close>

record last_scan =
  ls_id :: oid
  ls_number_scan :: int
  ls_history :: "scan_event list"
  ls_productInfo :: "product_doc list"

datatype stat_entry = LastScan last_scan | TotalToday nat

record history_row =
  hr_id :: oid
  hr_history :: "scan_event list"
  hr_productInfo :: "product_doc list"

datatype body =
    Message message
  | Failure error  \<comment> \<open>\<^verbatim>\<open>{ error }\<close>\<close>
  | Refused refusal  \<comment> \<open>\<^verbatim>\<open>{ error: "..." }\<close>\<close>
  | StatsData "stat_entry list"
  | HistoryData "history_row list"
  | ProfileData "profile option"  \<comment> \<open>\<open>None\<close> is the JSON \<^verbatim>\<open>null\<close>\<close>
  | UsersData "user list"
  | LoginData message oid "string list"
      \<comment> \<open>\<^verbatim>\<open>{message, user: {userId, role}}\<close>\<close>

text \<open>
  What a handler does with its request: it sends a response with a status, or an
  exception leaves it before any response is sent.
\<close>

datatype outcome = Responded nat body | Threw error

section \<open>The mongoose calls on the User model\<close>

text \<open>The first document of a collection that satisfies a filter, as \<^verbatim>\<open>findOne\<close>
  and \<^verbatim>\<open>updateOne\<close> select it.\<close>

definition findUser :: "user list \<Rightarrow> oid \<Rightarrow> user option" where
  "findUser us i = find (\<lambda>u. uid u = i) us"

fun updateFirst :: "('a \<Rightarrow> bool) \<Rightarrow> ('a \<Rightarrow> 'a) \<Rightarrow> 'a list \<Rightarrow> 'a list" where
  "updateFirst P f [] = []"
| "updateFirst P f (x # xs) = (if P x then f x # xs else x # updateFirst P f xs)"

text \<open>
  \<^verbatim>\<open>User.updateOne({ _id: id }, { $push: { history: ev }, $inc: { number_scan: 1 } })\<close>:
  the filter is cast first (a string that is no ObjectId rejects the promise), then the
  first matching document gets both modifications in one write. A filter that matches
  nothing resolves as well, with nothing written.
\<close>

definition pushAndInc :: "scan_event \<Rightarrow> user \<Rightarrow> user" where
  "pushAndInc ev u = u\<lparr>history := history u @ [ev], number_scan := number_scan u + 1\<rparr>"

definition User_updateOne_push_inc ::
    "fault \<Rightarrow> user list \<Rightarrow> raw_id \<Rightarrow> scan_event \<Rightarrow> user list promise" where
  "User_updateOne_push_inc flt us rid ev =
     (case flt of
        Some e \<Rightarrow> Rejected e
      | None \<Rightarrow>
          (case castObjectId rid of
             None \<Rightarrow> Rejected CastError
           | Some i \<Rightarrow> Resolved (updateFirst (\<lambda>u. uid u = i) (pushAndInc ev) us)))"

section \<open>addProductInHistory\<close>

text \<open>
  Lines 17 to 28. \<open>now\<close> is the value of \<^verbatim>\<open>new Date()\<close>. The cast of
  \<^verbatim>\<open>req.body._id\<close> in line 18 happens outside the promise chain: when it throws, no
  response is sent by the handler and nothing is written. (For an absent field the
  constructor makes a fresh identifier; the handler then goes on as for a well-formed
  one.)
\<close>

definition addProductInHistory ::
    "fault \<Rightarrow> date \<Rightarrow> store \<Rightarrow> raw_id \<Rightarrow> raw_id \<Rightarrow> store \<times> outcome" where
  "addProductInHistory flt now db params_id body_id =
     (case castObjectId body_id of
        None \<Rightarrow> (db, Threw CastError)
      | Some idProduct \<Rightarrow>
          (case User_updateOne_push_inc flt (users db) params_id
                  \<lparr>product = idProduct, date_scan = now, owner = False\<rparr> of
             Resolved us' \<Rightarrow> (db\<lparr>users := us'\<rparr>, Responded 201 (Message ScanAdded))
           | Rejected e \<Rightarrow> (db, Responded 400 (Failure e))))"

text \<open>The element that a request at time \<open>now\<close> for product \<open>p\<close> appends, and a client
  that scans a sequence of products, one request after the other.\<close>

definition scanned :: "date \<times> oid \<Rightarrow> scan_event" where
  "scanned r = \<lparr>product = snd r, date_scan = fst r, owner = False\<rparr>"

fun scanAll :: "store \<Rightarrow> oid \<Rightarrow> (date \<times> oid) list \<Rightarrow> store" where
  "scanAll db i [] = db"
| "scanAll db i ((now, p) # rest) =
     scanAll (fst (addProductInHistory None now db (WellFormed i) (WellFormed p))) i rest"

text \<open>The invariant of section 3 of the specification, for one document.\<close>

definition scan_invariant :: "user \<Rightarrow> bool" where
  "scan_invariant u = (number_scan u = int (length (history u)))"

section \<open>The aggregation stages\<close>

text \<open>
  Each stage of a pipeline is a function on the list of rows that flows through it.
  \<^verbatim>\<open>$unwind: '$history'\<close> emits one row per element of the array, the document
  paired with that element, and no row for a document whose array is empty.
\<close>

type_synonym unwound = "user \<times> scan_event"

definition unwind_history :: "user list \<Rightarrow> unwound list" where
  "unwind_history us = concat (map (\<lambda>u. map (\<lambda>e. (u, e)) (history u)) us)"

text \<open>\<^verbatim>\<open>$match: { _id: userId }\<close> on documents.\<close>

definition match_id :: "oid \<Rightarrow> user list \<Rightarrow> user list" where
  "match_id userId us = filter (\<lambda>u. uid u = userId) us"

text \<open>\<^verbatim>\<open>$sort: { 'history.date_scan': 1 }\<close>, ascending. Rows with equal dates keep
  their order here; the properties below use only that the result is sorted and has the
  same rows.\<close>

definition sort_date_scan :: "unwound list \<Rightarrow> unwound list" where
  "sort_date_scan rows = sort_key (\<lambda>r. date_scan (snd r)) rows"

text \<open>
  \<^verbatim>\<open>$group: { _id: '$_id', number_scan: { $first: '$number_scan' },
  'list-history': { $push: '$history' } }\<close>: one row per identifier, with the
  \<^verbatim>\<open>number_scan\<close> of the first row of the group and the elements of the group in
  the order in which they arrive.
\<close>

record grouped =
  g_id :: oid
  g_number_scan :: int
  g_list_history :: "scan_event list"

function group_by_id :: "unwound list \<Rightarrow> grouped list" where
  "group_by_id [] = []"
| "group_by_id ((u, e) # rows) =
     \<lparr>g_id = uid u, g_number_scan = number_scan u,
      g_list_history = e # map snd (filter (\<lambda>r. uid (fst r) = uid u) rows)\<rparr>
     # group_by_id (filter (\<lambda>r. uid (fst r) \<noteq> uid u) rows)"
  by pat_completeness auto
termination
  by (relation "measure length") (auto simp: less_Suc_eq_le)

text \<open>
  \<^verbatim>\<open>$project: { 'history': { $slice: ['$list-history', -1] }, number_scan: 1 }\<close>.
  A negative count \<open>-n\<close> of \<^verbatim>\<open>$slice\<close> keeps the last \<open>n\<close> elements.
\<close>

definition slice_last :: "nat \<Rightarrow> 'a list \<Rightarrow> 'a list" where
  "slice_last n xs = drop (length xs - n) xs"

record projected =
  pr_id :: oid
  pr_number_scan :: int
  pr_history :: "scan_event list"

definition project_last :: "grouped \<Rightarrow> projected" where
  "project_last g =
     \<lparr>pr_id = g_id g, pr_number_scan = g_number_scan g,
      pr_history = slice_last 1 (g_list_history g)\<rparr>"

text \<open>
  \<^verbatim>\<open>$lookup: { from: 'product', localField: 'history.product', foreignField: '_id',
  as: 'productInfo' }\<close>: the documents of the collection whose \<^verbatim>\<open>_id\<close> is the
  \<^verbatim>\<open>product\<close> of one of the elements of \<^verbatim>\<open>history\<close>.
\<close>

definition lookup_product :: "product_doc list \<Rightarrow> scan_event list \<Rightarrow> product_doc list" where
  "lookup_product ps evs = filter (\<lambda>p. pid p \<in> set (map product evs)) ps"

definition with_productInfo :: "product_doc list \<Rightarrow> projected \<Rightarrow> last_scan" where
  "with_productInfo ps r =
     \<lparr>ls_id = pr_id r, ls_number_scan = pr_number_scan r, ls_history = pr_history r,
      ls_productInfo = lookup_product ps (pr_history r)\<rparr>"

text \<open>\<^verbatim>\<open>$count: 'total_today'\<close> emits one row with the number of rows it received,
  and nothing at all when it received none.\<close>

definition count_stage :: "'a list \<Rightarrow> nat list" where
  "count_stage rows = (if rows = [] then [] else [length rows])"

text \<open>\<^verbatim>\<open>User.aggregate(pipeline)\<close>: the rows the pipeline computes, unless the call is
  rejected.\<close>

definition User_aggregate :: "fault \<Rightarrow> 'a list \<Rightarrow> 'a list promise" where
  "User_aggregate flt rows = (case flt of Some e \<Rightarrow> Rejected e | None \<Rightarrow> Resolved rows)"

section \<open>Local time\<close>

text \<open>
  The local time zone of the server gives the offset of local time from UTC, in
  milliseconds: \<open>offsetAtInstant\<close> at a point in time, \<open>offsetAtLocal\<close> for a local
  date and time (the two differ around a daylight-saving change). A zone with one offset
  throughout is \<open>fixedZone\<close>.
\<close>

record zone =
  offsetAtInstant :: "date \<Rightarrow> int"
  offsetAtLocal :: "int \<Rightarrow> int"

definition fixedZone :: "int \<Rightarrow> zone" where
  "fixedZone tz = \<lparr>offsetAtInstant = (\<lambda>_. tz), offsetAtLocal = (\<lambda>_. tz)\<rparr>"

definition msPerDay :: int where
  "msPerDay = 86400000"

text \<open>The midnight that starts the local day of \<open>t\<close>, in a zone of fixed offset.\<close>

definition localDayStart :: "int \<Rightarrow> date \<Rightarrow> date" where
  "localDayStart tz t = t - (t + tz) mod msPerDay"

text \<open>
  \<^verbatim>\<open>d.setHours(h, m, s)\<close> replaces the hour, minute and second of the local time of
  \<open>d\<close> and keeps its day and, since no fourth argument is given, its milliseconds;
  the new local date and time is then converted back.
\<close>

definition setHours :: "zone \<Rightarrow> date \<Rightarrow> int \<Rightarrow> int \<Rightarrow> int \<Rightarrow> date" where
  "setHours z t h m s =
     (let l = t + offsetAtInstant z t;
          l' = l - l mod msPerDay + h * 3600000 + m * 60000 + s * 1000 + l mod 1000
      in l' - offsetAtLocal z l')"

section \<open>getStatsAndLastProduct\<close>

text \<open>The pipeline of lines 68 to 75.\<close>

definition lastScanPipeline :: "store \<Rightarrow> oid \<Rightarrow> last_scan list" where
  "lastScanPipeline db userId =
     map (with_productInfo (products db))
       (map project_last
         (group_by_id
           (sort_date_scan
             (unwind_history
               (match_id userId (users db))))))"

text \<open>The pipeline of lines 79 to 83: the whole collection is unwound, then matched
  against the identifier and the two bounds.\<close>

definition match_today :: "oid \<Rightarrow> date \<Rightarrow> date \<Rightarrow> unwound list \<Rightarrow> unwound list" where
  "match_today userId lo hi rows =
     filter (\<lambda>r. uid (fst r) = userId \<and> lo \<le> date_scan (snd r) \<and> date_scan (snd r) < hi) rows"

definition todayPipeline :: "store \<Rightarrow> oid \<Rightarrow> date \<Rightarrow> date \<Rightarrow> nat list" where
  "todayPipeline db userId lo hi =
     count_stage (match_today userId lo hi (unwind_history (users db)))"

text \<open>
  Lines 63 to 91. \<open>now1\<close> and \<open>now2\<close> are the values of the two \<^verbatim>\<open>new Date()\<close>
  of line 81, in the order in which the object literal evaluates them; \<open>flt1\<close> and
  \<open>flt2\<close> decide the two calls to the store. The cast of line 64 happens outside the
  promise chain. Both aggregations read the same state of the store; \<open>z\<close> is the
  time zone of the server.
\<close>

definition getStatsAndLastProduct ::
    "fault \<Rightarrow> fault \<Rightarrow> zone \<Rightarrow> date \<Rightarrow> date \<Rightarrow> store \<Rightarrow> raw_id \<Rightarrow> outcome" where
  "getStatsAndLastProduct flt1 flt2 z now1 now2 db params_id =
     (case castObjectId params_id of
        None \<Rightarrow> Threw CastError
      | Some userId \<Rightarrow>
          (case User_aggregate flt1 (lastScanPipeline db userId) of
             Rejected e \<Rightarrow> Responded 404 (Failure e)
           | Resolved userHistory \<Rightarrow>
               (case User_aggregate flt2
                       (todayPipeline db userId
                          (setHours z now1 0 0 0) (setHours z now2 23 59 59)) of
                  Rejected e \<Rightarrow> Responded 404 (Failure e)
                | Resolved userStatsNow \<Rightarrow>
                    Responded 200
                      (StatsData (map LastScan userHistory @ map TotalToday userStatsNow)))))"

section \<open>getHistoryOfUser and getInformationOfUser\<close>






section \<open>getAllUsers\<close>



section \<open>editInformationOfUser\<close>

text \<open>
  The request body is a JSON object: a list of keys with their values, in the order of
  the keys. \<open>JId\<close> stands for a string in a place where an identifier is read, with the
  outcome of its cast.
\<close>

datatype jval =
    JNull
  | JBool bool
  | JNum int
  | JStr string
  | JId raw_id
  | JArr "jval list"
  | JObj "(string \<times> jval) list"

type_synonym jobject = "(string \<times> jval) list"

text \<open>
  \<^verbatim>\<open>{...req.body, _id: req.params.id}\<close>: the properties of the body, then the key
  \<^verbatim>\<open>_id\<close> assigned. Assigning a key that the object has replaces its value in
  place; assigning a new key appends it.
\<close>

definition spread_with_id :: "jobject \<Rightarrow> raw_id \<Rightarrow> jobject" where
  "spread_with_id req_body params_id = AList.update ''_id'' (JId params_id) req_body"

text \<open>
  What an update document does to a stored document depends on the schema of
  \<^verbatim>\<open>models/User\<close>, which is not part of the sources: mongoose casts the document
  against the schema before it is sent (plain keys become a \<^verbatim>\<open>$set\<close>, each value is
  converted to the type of its path, a key that starts with \<^verbatim>\<open>$\<close> is an update
  operator), and the store applies the result to the matched document. For everything
  but the key \<^verbatim>\<open>_id\<close> both steps are parameters of the model: \<open>castRest\<close> is the
  cast, which yields a cast document of some type \<open>'upd\<close> or an error, and
  \<open>applyRest\<close> is what the store makes of the cast document on the matched document.
  Both see the whole update document, so they stand for any schema, any conversion of
  values and any update operator.
\<close>

record 'upd schema =
  castRest :: "jobject \<Rightarrow> error + 'upd"
  applyRest :: "'upd \<Rightarrow> user \<Rightarrow> error + user"

text \<open>
  The value under the key \<^verbatim>\<open>_id\<close> is cast to an ObjectId. This handler always
  sends the path parameter under that key, so no value other than a \<open>JId\<close> reaches
  the cast.
\<close>

fun castId :: "jval \<Rightarrow> oid option" where
  "castId (JId r) = castObjectId r"
| "castId _ = None"

definition castIdEntry :: "jobject \<Rightarrow> error + oid option" where
  "castIdEntry doc =
     (case map_of doc ''_id'' of
        None \<Rightarrow> Inr None
      | Some v \<Rightarrow> (case castId v of None \<Rightarrow> Inl CastError | Some j \<Rightarrow> Inr (Some j)))"

text \<open>
  The \<^verbatim>\<open>_id\<close> of a stored document is immutable. A \<^verbatim>\<open>$set\<close> of \<^verbatim>\<open>_id\<close>
  to the value the document has is accepted; to any other value it is refused. An
  update that would leave the document with another \<^verbatim>\<open>_id\<close> by any other means
  is refused as well.
\<close>

definition id_accepted :: "oid option \<Rightarrow> user \<Rightarrow> bool" where
  "id_accepted idv u = (case idv of None \<Rightarrow> True | Some j \<Rightarrow> j = uid u)"

text \<open>
  \<^verbatim>\<open>User.updateOne({ _id: id }, doc)\<close>: the filter and the document are cast, then
  the first matching document is rewritten. A cast error, a refused update or a fault of
  the store rejects the promise and writes nothing; a filter that matches nothing
  resolves with nothing written.
\<close>

definition User_updateOne_doc ::
    "'upd schema \<Rightarrow> fault \<Rightarrow> user list \<Rightarrow> raw_id \<Rightarrow> jobject \<Rightarrow> user list promise" where
  "User_updateOne_doc sch flt us rid doc =
     (case flt of
        Some e \<Rightarrow> Rejected e
      | None \<Rightarrow>
          (case castObjectId rid of
             None \<Rightarrow> Rejected CastError
           | Some i \<Rightarrow>
               (case castIdEntry doc of
                  Inl e \<Rightarrow> Rejected e
                | Inr idv \<Rightarrow>
                    (case castRest sch doc of
                       Inl e \<Rightarrow> Rejected e
                     | Inr upd \<Rightarrow>
                         (case findUser us i of
                            None \<Rightarrow> Resolved us
                          | Some u \<Rightarrow>
                              if \<not> id_accepted idv u then Rejected ImmutableField
                              else
                                (case applyRest sch upd u of
                                   Inl e \<Rightarrow> Rejected e
                                 | Inr u' \<Rightarrow>
                                     if uid u' = uid u
                                     then Resolved (updateFirst (\<lambda>v. uid v = i) (\<lambda>_. u') us)
                                     else Rejected ImmutableField))))))"

text \<open>Lines 207 to 211.\<close>

definition editInformationOfUser ::
    "'upd schema \<Rightarrow> fault \<Rightarrow> store \<Rightarrow> raw_id \<Rightarrow> jobject \<Rightarrow> store \<times> outcome" where
  "editInformationOfUser sch flt db params_id req_body =
     (case User_updateOne_doc sch flt (users db) params_id
             (spread_with_id req_body params_id) of
        Resolved us' \<Rightarrow> (db\<lparr>users := us'\<rparr>, Responded 200 (Message ProfileUpdated))
      | Rejected e \<Rightarrow> (db, Responded 400 (Failure e)))"

text \<open>
  A stand-in schema for the examples below. It knows the path \<^verbatim>\<open>fullname\<close> only
  and takes a string as it is.
\<close>

definition fullname_schema :: "string option schema" where
  "fullname_schema =
     \<lparr>castRest = (\<lambda>doc. case map_of doc ''fullname'' of
                           None \<Rightarrow> Inr None
                         | Some (JStr s) \<Rightarrow> Inr (Some s)
                         | Some _ \<Rightarrow> Inl CastError),
      applyRest = (\<lambda>upd u. Inr (case upd of None \<Rightarrow> u | Some s \<Rightarrow> u\<lparr>fullname := s\<rparr>))\<rparr>"

section \<open>login\<close>

text \<open>\<^verbatim>\<open>req.session.user\<close>, and what a handler does to it.\<close>

record session_user =
  userId :: oid
  session_mail :: string
  session_roles :: "string list"

datatype session_write = NoWrite | SetUser session_user

fun session_after :: "session_user option \<Rightarrow> session_write \<Rightarrow> session_user option" where
  "session_after s NoWrite = s"
| "session_after s (SetUser su) = Some su"

text \<open>\<^verbatim>\<open>User.findOne({ mail: m })\<close>: the first document with that mail, or
  \<^verbatim>\<open>null\<close>.\<close>

definition User_findOne_mail :: "fault \<Rightarrow> user list \<Rightarrow> string \<Rightarrow> user option promise" where
  "User_findOne_mail flt us m =
     (case flt of
        Some e \<Rightarrow> Rejected e
      | None \<Rightarrow> Resolved (find (\<lambda>u. mail u = m) us))"

text \<open>
  Lines 245 to 263. \<open>compare\<close> is \<^verbatim>\<open>bcrypt.compare\<close>, a parameter of the model:
  given the candidate and the stored hash it resolves with the verdict or rejects.
  \<^verbatim>\<open>req.body.mail\<close> and \<^verbatim>\<open>req.body.password\<close> are strings. The handler
  returns what it does to the session and what it responds.
\<close>

definition login ::
    "fault \<Rightarrow> (string \<Rightarrow> string \<Rightarrow> bool promise) \<Rightarrow> store \<Rightarrow> string \<Rightarrow> string
       \<Rightarrow> session_write \<times> outcome" where
  "login flt compare db body_mail body_password =
     (case User_findOne_mail flt (users db) body_mail of
        Rejected e \<Rightarrow> (NoWrite, Responded 500 (Failure e))
      | Resolved None \<Rightarrow> (NoWrite, Responded 401 (Refused UnknownUser))
      | Resolved (Some u) \<Rightarrow>
          (case compare body_password (password u) of
             Rejected e \<Rightarrow> (NoWrite, Responded 500 (Failure e))
           | Resolved valid \<Rightarrow>
               if \<not> valid then (NoWrite, Responded 401 (Refused WrongPassword))
               else (SetUser \<lparr>userId = uid u, session_mail = mail u, session_roles = roles u\<rparr>,
                     Responded 200 (LoginData Authenticated (uid u) (roles u)))))"

text \<open>A password check for the examples below: the stored hash of a password is the
  password behind a fixed prefix.\<close>

definition prefix_compare :: "string \<Rightarrow> string \<Rightarrow> bool promise" where
  "prefix_compare candidate hash = Resolved (hash = ''$2b$'' @ candidate)"

section \<open>Example stores\<close>

definition alice :: user where
  "alice = \<lparr>uid = 1, fullname = ''Alice'', mail = ''alice@example.org'',
            password = ''$2b$secret'', timezone = ''UTC +1'', registration_date = 0,
            roles = [''admin''], number_scan = 0, history = []\<rparr>"

definition echalotte :: product_doc where
  "echalotte = \<lparr>pid = 7, pname = ''Echalotte'', barcode = ''54346434664223''\<rparr>"

definition db0 :: store where
  "db0 = \<lparr>users = [alice], products = [echalotte]\<rparr>"

text \<open>A user with three scans that are not in the order of their dates, one whose only
  scan is at 23:59:59.000 of the first day of the epoch, and one whose only scan is at
  00:00:00.000 of that day.\<close>

definition bob :: user where
  "bob = \<lparr>uid = 2, fullname = ''Bob'', mail = ''bob@example.org'',
          password = ''$2b$hunter2'', timezone = ''UTC +1'', registration_date = 0,
          roles = [], number_scan = 3,
          history = [\<lparr>product = 7, date_scan = 50, owner = False\<rparr>,
                     \<lparr>product = 8, date_scan = 90, owner = False\<rparr>,
                     \<lparr>product = 7, date_scan = 20, owner = False\<rparr>]\<rparr>"

definition carol :: user where
  "carol = \<lparr>uid = 3, fullname = ''Carol'', mail = ''carol@example.org'',
            password = ''$2b$pass'', timezone = ''UTC'', registration_date = 0,
            roles = [], number_scan = 1,
            history = [\<lparr>product = 7, date_scan = 86399000, owner = False\<rparr>]\<rparr>"

definition dave :: user where
  "dave = \<lparr>uid = 4, fullname = ''Dave'', mail = ''dave@example.org'',
           password = ''$2b$word'', timezone = ''UTC'', registration_date = 0,
           roles = [], number_scan = 1,
           history = [\<lparr>product = 7, date_scan = 0, owner = False\<rparr>]\<rparr>"

definition db1 :: store where
  "db1 = \<lparr>users = [alice, bob, carol, dave], products = [echalotte]\<rparr>"

section \<open>Properties of addProductInHistory\<close>

lemma findUser_updateFirst:
  assumes "\<And>u. uid (f u) = uid u"
  shows "findUser (updateFirst (\<lambda>u. uid u = i) f us) j =
           (if j = i then map_option f (findUser us i) else findUser us j)"
  using assms by (induction us) (auto simp: findUser_def)

lemma list_all_updateFirst:
  "list_all P us \<Longrightarrow> (\<And>u. P u \<Longrightarrow> P (f u)) \<Longrightarrow> list_all P (updateFirst Q f us)"
  by (induction us) auto

lemma uid_pushAndInc [simp]: "uid (pushAndInc ev u) = uid u"
  by (simp add: pushAndInc_def)

lemma scan_invariant_pushAndInc: "scan_invariant u \<Longrightarrow> scan_invariant (pushAndInc ev u)"
  by (simp add: scan_invariant_def pushAndInc_def)

lemma addProductInHistory_success:
  "addProductInHistory None now db (WellFormed i) (WellFormed p) =
     (db\<lparr>users := updateFirst (\<lambda>u. uid u = i)
                     (pushAndInc \<lparr>product = p, date_scan = now, owner = False\<rparr>) (users db)\<rparr>,
      Responded 201 (Message ScanAdded))"
  by (simp add: addProductInHistory_def User_updateOne_push_inc_def)

lemma addProductInHistory_users_cases:
  "users (fst (addProductInHistory flt now db rid rpid)) = users db \<or>
   (\<exists>i ev. users (fst (addProductInHistory flt now db rid rpid)) =
       updateFirst (\<lambda>u. uid u = i) (pushAndInc ev) (users db))"
  by (auto simp: addProductInHistory_def User_updateOne_push_inc_def
           split: option.splits promise.splits)

lemma addProductInHistory_list_all:
  "list_all scan_invariant (users db) \<Longrightarrow>
   list_all scan_invariant (users (fst (addProductInHistory flt now db rid rpid)))"
  using addProductInHistory_users_cases [of flt now db rid rpid]
  by (auto simp: list_all_updateFirst scan_invariant_pushAndInc)


lemma scanAll_user:
  "findUser (users db) i = Some u \<Longrightarrow>
   findUser (users (scanAll db i reqs)) i =
     Some (u\<lparr>history := history u @ map scanned reqs,
             number_scan := number_scan u + int (length reqs)\<rparr>)"
proof (induction reqs arbitrary: db u)
  case Nil
  then show ?case by simp
next
  case (Cons r reqs)
  obtain now p where r: "r = (now, p)" by (cases r)
  let ?db' = "fst (addProductInHistory None now db (WellFormed i) (WellFormed p))"
  have "findUser (users ?db') i = Some (pushAndInc (scanned r) u)"
    using Cons.prems by (simp add: addProductInHistory_success findUser_updateFirst r scanned_def)
  from Cons.IH [OF this] show ?case
    by (simp add: r pushAndInc_def add.assoc)
qed


text \<open>
  Claim C3. A request for an existing user with a well-formed product identifier, answered
  by the store, responds 201 and rewrites the user's document in one step: the event
  \<open>{product, date_scan: now, owner: false}\<close> is appended to the history and
  \<open>number_scan\<close> grows by one. Whatever the request, a store in which every document
  satisfies \<open>number_scan = length history\<close> still does afterwards. Starting from an
  empty history and a counter of zero, \<open>N\<close> requests in sequence leave the \<open>N\<close>
  events in the history, in order, and \<open>number_scan = N\<close>.
\<close>

theorem addProductInHistory_scan_invariant:
  assumes "findUser (users db) i = Some u"
  shows "(\<exists>db'. addProductInHistory None now db (WellFormed i) (WellFormed p) =
                  (db', Responded 201 (Message ScanAdded)) \<and>
               findUser (users db') i =
                  Some (u\<lparr>history := history u @ [\<lparr>product = p, date_scan = now, owner = False\<rparr>],
                          number_scan := number_scan u + 1\<rparr>)) \<and>
         (list_all scan_invariant (users db) \<longrightarrow>
            list_all scan_invariant (users (fst (addProductInHistory flt now' db rid rpid)))) \<and>
         (history u = [] \<and> number_scan u = 0 \<longrightarrow>
            (\<exists>u'. findUser (users (scanAll db i reqs)) i = Some u' \<and>
                  history u' = map scanned reqs \<and>
                  number_scan u' = int (length reqs) \<and>
                  number_scan u' = int (length (history u'))))"
proof (intro conjI impI)
  show "\<exists>db'. addProductInHistory None now db (WellFormed i) (WellFormed p) =
                  (db', Responded 201 (Message ScanAdded)) \<and>
               findUser (users db') i =
                  Some (u\<lparr>history := history u @ [\<lparr>product = p, date_scan = now, owner = False\<rparr>],
                          number_scan := number_scan u + 1\<rparr>)"
    using assms
    by (simp add: addProductInHistory_success findUser_updateFirst pushAndInc_def)
next
  assume "list_all scan_invariant (users db)"
  then show "list_all scan_invariant (users (fst (addProductInHistory flt now' db rid rpid)))"
    by (rule addProductInHistory_list_all)
next
  assume "history u = [] \<and> number_scan u = 0"
  with scanAll_user [OF assms, of reqs]
  show "\<exists>u'. findUser (users (scanAll db i reqs)) i = Some u' \<and>
                  history u' = map scanned reqs \<and>
                  number_scan u' = int (length reqs) \<and>
                  number_scan u' = int (length (history u'))"
    by simp
qed

theorem addProductInHistory_scan_invariant_witness:
  "findUser (users db0) 1 = Some alice \<and>
   addProductInHistory None 10 db0 (WellFormed 1) (WellFormed 7) =
     (db0\<lparr>users := [alice\<lparr>history := [\<lparr>product = 7, date_scan = 10, owner = False\<rparr>],
                           number_scan := 1\<rparr>]\<rparr>,
      Responded 201 (Message ScanAdded)) \<and>
   list_all scan_invariant (users db0) \<and>
   list_all scan_invariant
     (users (fst (addProductInHistory None 10 db0 (WellFormed 1) (WellFormed 7)))) \<and>
   history alice = [] \<and> number_scan alice = 0 \<and>
   (\<exists>u'. findUser (users (scanAll db0 1 [(10, 7), (20, 7), (30, 8)])) 1 = Some u' \<and>
         number_scan u' = 3 \<and> length (history u') = 3)"
proof -
  have h: "findUser (users db0) 1 = Some alice"
    by (simp add: findUser_def db0_def alice_def)
  have e: "history alice = [] \<and> number_scan alice = 0"
    by (simp add: alice_def)
  have i: "list_all scan_invariant (users db0)"
    by (simp add: db0_def alice_def scan_invariant_def)
  have a: "addProductInHistory None 10 db0 (WellFormed 1) (WellFormed 7) =
     (db0\<lparr>users := [alice\<lparr>history := [\<lparr>product = 7, date_scan = 10, owner = False\<rparr>],
                           number_scan := 1\<rparr>]\<rparr>,
      Responded 201 (Message ScanAdded))"
    by (simp add: addProductInHistory_def User_updateOne_push_inc_def db0_def alice_def
          pushAndInc_def)
  from addProductInHistory_scan_invariant
         [OF h, of 10 7 None 10 "WellFormed 1" "WellFormed 7" "[(10, 7), (20, 7), (30, 8)]"] e i
  have "list_all scan_invariant
          (users (fst (addProductInHistory None 10 db0 (WellFormed 1) (WellFormed 7)))) \<and>
        (\<exists>u'. findUser (users (scanAll db0 1 [(10, 7), (20, 7), (30, 8)])) 1 = Some u' \<and>
              number_scan u' = 3 \<and> length (history u') = 3)"
    by auto
  with h e i a show ?thesis
    by simp
qed

lemma updateFirst_no_match: "find P us = None \<Longrightarrow> updateFirst P f us = us"
  by (induction us) (auto split: if_splits)

text \<open>
  Claim C4, as stated, fails: the identifier 2 references no user of the store, and the
  response is the acknowledgement with status 201.
\<close>

theorem addProductInHistory_unknown_user_counterexample:
  "findUser (users db0) 2 = None \<and>
   addProductInHistory None 10 db0 (WellFormed 2) (WellFormed 7) =
     (db0, Responded 201 (Message ScanAdded))"
  by (simp add: findUser_def db0_def alice_def addProductInHistory_def
        User_updateOne_push_inc_def)

text \<open>
  Claim C4, amended. With a well-formed product identifier, the request fails with
  status 400 exactly when the write is rejected (a fault of the store, or a user
  identifier that cannot be cast), and then the store is unchanged; otherwise it responds
  201. In particular a well-formed user identifier that references no user is
  acknowledged with 201, and nothing is written.
\<close>

theorem addProductInHistory_failure_iff_rejected:
  assumes "castObjectId body_id = Some p"
  shows "((\<exists>e. addProductInHistory flt now db params_id body_id =
                  (db, Responded 400 (Failure e))) \<longleftrightarrow>
            (flt \<noteq> None \<or> castObjectId params_id = None)) \<and>
         ((\<exists>db'. addProductInHistory flt now db params_id body_id =
                  (db', Responded 201 (Message ScanAdded))) \<longleftrightarrow>
            (flt = None \<and> castObjectId params_id \<noteq> None)) \<and>
         (flt = None \<and> params_id = WellFormed i \<and> findUser (users db) i = None \<longrightarrow>
            addProductInHistory flt now db params_id body_id =
              (db, Responded 201 (Message ScanAdded)))"
  using assms
  by (auto simp: addProductInHistory_def User_updateOne_push_inc_def findUser_def
        updateFirst_no_match split: option.splits)

theorem addProductInHistory_failure_iff_rejected_witness:
  "castObjectId (WellFormed 7) = Some 7 \<and>
   addProductInHistory (Some StoreError) 10 db0 (WellFormed 1) (WellFormed 7) =
     (db0, Responded 400 (Failure StoreError)) \<and>
   addProductInHistory None 10 db0 Malformed (WellFormed 7) =
     (db0, Responded 400 (Failure CastError)) \<and>
   findUser (users db0) 2 = None \<and>
   addProductInHistory None 10 db0 (WellFormed 2) (WellFormed 7) =
     (db0, Responded 201 (Message ScanAdded))"
proof -
  have c: "castObjectId (WellFormed 7) = Some 7" by simp
  have n: "findUser (users db0) 2 = None"
    by (simp add: findUser_def db0_def alice_def)
  from addProductInHistory_failure_iff_rejected [OF c, of None 10 db0 "WellFormed 2" 2] n
  have "addProductInHistory None 10 db0 (WellFormed 2) (WellFormed 7) =
          (db0, Responded 201 (Message ScanAdded))"
    by simp
  then show ?thesis
    using c n by (simp add: addProductInHistory_def User_updateOne_push_inc_def)
qed

section \<open>Properties of getStatsAndLastProduct\<close>

lemma filter_key_distinct:
  "distinct (map f xs) \<Longrightarrow> x \<in> set xs \<Longrightarrow> filter (\<lambda>y. f y = f x) xs = [x]"
proof (induction xs)
  case Nil
  then show ?case by simp
next
  case (Cons a xs)
  show ?case
  proof (cases "a = x")
    case True
    with Cons.prems have "\<forall>y\<in>set xs. f y \<noteq> f x" by (auto simp: image_iff)
    then have "filter (\<lambda>y. f y = f x) xs = []" by (simp add: filter_empty_conv)
    with True show ?thesis by simp
  next
    case False
    with Cons.prems have "x \<in> set xs" and "f a \<noteq> f x" by (auto simp: image_iff)
    with Cons show ?thesis by simp
  qed
qed

lemma match_id_unique:
  "distinct (map uid us) \<Longrightarrow> u \<in> set us \<Longrightarrow> match_id (uid u) us = [u]"
  unfolding match_id_def by (rule filter_key_distinct)

lemma match_id_absent: "findUser us i = None \<Longrightarrow> match_id i us = []"
  by (simp add: findUser_def match_id_def find_None_iff filter_empty_conv)

lemma unwind_history_single: "unwind_history [u] = map (Pair u) (history u)"
  by (simp add: unwind_history_def)

lemma insort_key_Pair:
  "insort_key (\<lambda>r. g (snd r)) (u, e) (map (Pair u) xs) = map (Pair u) (insort_key g e xs)"
  by (induction xs) auto

lemma sort_key_Pair:
  "sort_key (\<lambda>r. g (snd r)) (map (Pair u) xs) = map (Pair u) (sort_key g xs)"
  by (induction xs) (auto simp: insort_key_Pair)

lemma group_by_id_single:
  "group_by_id (map (Pair u) (e # es)) =
     [\<lparr>g_id = uid u, g_number_scan = number_scan u, g_list_history = e # es\<rparr>]"
  by (simp add: filter_map comp_def)

lemma slice_last_one: "xs \<noteq> [] \<Longrightarrow> slice_last 1 xs = [last xs]"
  by (induction xs rule: rev_induct) (auto simp: slice_last_def)

lemma sorted_last_max:
  "sorted (map f xs) \<Longrightarrow> x \<in> set xs \<Longrightarrow> f x \<le> f (last xs)"
proof (induction xs)
  case Nil
  then show ?case by simp
next
  case (Cons a xs)
  then show ?case by (cases xs) auto
qed

lemma lastScanPipeline_empty_history:
  assumes "distinct (map uid (users db))" "u \<in> set (users db)" "history u = []"
  shows "lastScanPipeline db (uid u) = []"
  using assms by (simp add: lastScanPipeline_def match_id_unique unwind_history_single
      sort_date_scan_def)

lemma lastScanPipeline_absent:
  "findUser (users db) i = None \<Longrightarrow> lastScanPipeline db i = []"
  by (simp add: lastScanPipeline_def match_id_absent unwind_history_def sort_date_scan_def)

lemma lastScanPipeline_latest:
  assumes "distinct (map uid (users db))" "u \<in> set (users db)" "history u \<noteq> []"
  shows "lastScanPipeline db (uid u) =
           [\<lparr>ls_id = uid u, ls_number_scan = number_scan u,
             ls_history = [last (sort_key date_scan (history u))],
             ls_productInfo =
               lookup_product (products db) [last (sort_key date_scan (history u))]\<rparr>]"
proof -
  from assms(3) have "sort_key date_scan (history u) \<noteq> []"
    by (metis length_sort list.size(3) length_0_conv)
  then obtain e es where s: "sort_key date_scan (history u) = e # es"
    by (cases "sort_key date_scan (history u)") auto
  have "sort_date_scan (unwind_history (match_id (uid u) (users db))) = map (Pair u) (e # es)"
    using assms(1,2) s
    by (simp add: match_id_unique unwind_history_single sort_date_scan_def sort_key_Pair)
  then show ?thesis
    using s slice_last_one [of "e # es"]
    by (simp only: lastScanPipeline_def group_by_id_single)
       (simp add: project_last_def with_productInfo_def)
qed

lemma match_today_unwind:
  "match_today i lo hi (unwind_history us) =
     concat (map (\<lambda>u. map (Pair u)
                         (filter (\<lambda>e. lo \<le> date_scan e \<and> date_scan e < hi) (history u)))
                 (match_id i us))"
proof (induction us)
  case Nil
  then show ?case by (simp add: match_today_def unwind_history_def match_id_def)
next
  case (Cons a us)
  have "match_today i lo hi (unwind_history (a # us)) =
          match_today i lo hi (map (Pair a) (history a)) @ match_today i lo hi (unwind_history us)"
    by (simp add: match_today_def unwind_history_def)
  moreover have "match_today i lo hi (map (Pair a) (history a)) =
      (if uid a = i
       then map (Pair a) (filter (\<lambda>e. lo \<le> date_scan e \<and> date_scan e < hi) (history a))
       else [])"
    by (simp add: match_today_def filter_map comp_def)
  ultimately show ?case
    using Cons.IH by (simp add: match_id_def)
qed


lemma count_stage_map [simp]: "count_stage (map f xs) = count_stage xs"
  by (simp add: count_stage_def)

lemma todayPipeline_unique:
  assumes "distinct (map uid (users db))" "u \<in> set (users db)"
  shows "todayPipeline db (uid u) lo hi =
           count_stage (filter (\<lambda>e. lo \<le> date_scan e \<and> date_scan e < hi) (history u))"
  using assms by (simp add: todayPipeline_def match_today_unwind match_id_unique)

lemma todayPipeline_absent:
  "findUser (users db) i = None \<Longrightarrow> todayPipeline db i lo hi = []"
  by (simp add: todayPipeline_def match_today_unwind match_id_absent count_stage_def)

lemma getStatsAndLastProduct_answered:
  "getStatsAndLastProduct None None z now1 now2 db (WellFormed i) =
     Responded 200
       (StatsData (map LastScan (lastScanPipeline db i) @
                   map TotalToday
                     (todayPipeline db i (setHours z now1 0 0 0) (setHours z now2 23 59 59))))"
  by (simp add: getStatsAndLastProduct_def User_aggregate_def)

text \<open>
  Claim C1. For a user of the store whose history is not empty, with both aggregations
  answered, the response is 200 and its first element is the last-scan row of that user:
  its history holds exactly one event, the tail slice of size one of the user's events
  sorted by \<open>date_scan\<close>; that event is one of the user's events and no event of the
  user has a later \<open>date_scan\<close>. Identifiers are unique in the collection, as the store
  guarantees for \<^verbatim>\<open>_id\<close>.
\<close>

theorem getStatsAndLastProduct_last_scan_latest:
  assumes "distinct (map uid (users db))" and "u \<in> set (users db)" and "history u \<noteq> []"
  shows "\<exists>e rest.
           getStatsAndLastProduct None None z now1 now2 db (WellFormed (uid u)) =
             Responded 200
               (StatsData
                  (LastScan \<lparr>ls_id = uid u, ls_number_scan = number_scan u, ls_history = [e],
                             ls_productInfo = lookup_product (products db) [e]\<rparr> # rest)) \<and>
           [e] = slice_last 1 (sort_key date_scan (history u)) \<and>
           e \<in> set (history u) \<and>
           (\<forall>e'\<in>set (history u). date_scan e' \<le> date_scan e)"
proof -
  let ?s = "sort_key date_scan (history u)"
  let ?e = "last ?s"
  from assms(3) have ne: "?s \<noteq> []"
    by (metis length_sort list.size(3) length_0_conv)
  then have "?e \<in> set ?s" by (rule last_in_set)
  then have mem: "?e \<in> set (history u)" by simp
  have mx: "\<forall>e'\<in>set (history u). date_scan e' \<le> date_scan ?e"
  proof
    fix e' assume "e' \<in> set (history u)"
    then have "e' \<in> set ?s" by simp
    with sorted_last_max [of date_scan ?s e'] show "date_scan e' \<le> date_scan ?e"
      by simp
  qed
  have "getStatsAndLastProduct None None z now1 now2 db (WellFormed (uid u)) =
          Responded 200
            (StatsData
               (LastScan \<lparr>ls_id = uid u, ls_number_scan = number_scan u, ls_history = [?e],
                          ls_productInfo = lookup_product (products db) [?e]\<rparr> #
                map TotalToday
                  (todayPipeline db (uid u)
                     (setHours z now1 0 0 0) (setHours z now2 23 59 59))))"
    by (simp add: getStatsAndLastProduct_answered lastScanPipeline_latest [OF assms])
  moreover have "[?e] = slice_last 1 ?s"
    using slice_last_one [OF ne] by simp
  ultimately show ?thesis
    using mem mx by blast
qed

text \<open>
  Claim C6. For a well-formed identifier that references no user, with both aggregations
  answered, the response is the success status 200 with an empty sequence.
\<close>

theorem getStatsAndLastProduct_unknown_user:
  assumes "findUser (users db) i = None"
  shows "getStatsAndLastProduct None None z now1 now2 db (WellFormed i) =
           Responded 200 (StatsData [])"
  using assms
  by (simp add: getStatsAndLastProduct_answered lastScanPipeline_absent todayPipeline_absent)

text \<open>
  Claim C7. For a user whose history is empty the response has no last-scan element, and
  no count entry other than zero; in fact the count entry is absent and the sequence is
  empty.
\<close>

theorem getStatsAndLastProduct_empty_history:
  assumes "distinct (map uid (users db))" and "u \<in> set (users db)" and "history u = []"
  shows "\<exists>entries.
           getStatsAndLastProduct None None z now1 now2 db (WellFormed (uid u)) =
             Responded 200 (StatsData entries) \<and>
           (\<forall>row. LastScan row \<notin> set entries) \<and>
           (\<forall>n. TotalToday n \<in> set entries \<longrightarrow> n = 0) \<and>
           entries = []"
  using assms
  by (simp add: getStatsAndLastProduct_answered lastScanPipeline_empty_history
        todayPipeline_unique count_stage_def)

lemma setHours_midnight:
  "localDayStart tz t \<le> setHours (fixedZone tz) t 0 0 0 \<and> setHours (fixedZone tz) t 0 0 0 \<le> localDayStart tz t + 999"
proof -
  have "0 \<le> (t + tz) mod 1000" and "(t + tz) mod 1000 < 1000" by simp_all
  then show ?thesis by (simp add: setHours_def fixedZone_def localDayStart_def Let_def)
qed

lemma setHours_last_second:
  "localDayStart tz t + 86399000 \<le> setHours (fixedZone tz) t 23 59 59 \<and>
   setHours (fixedZone tz) t 23 59 59 \<le> localDayStart tz t + 86399999"
proof -
  have "0 \<le> (t + tz) mod 1000" and "(t + tz) mod 1000 < 1000" by simp_all
  then show ?thesis by (simp add: setHours_def fixedZone_def localDayStart_def Let_def)
qed

lemma count_stage_length:
  "map TotalToday (count_stage rows) =
     (if length rows = 0 then [] else [TotalToday (length rows)])"
  by (simp add: count_stage_def)

text \<open>
  Claim C2, amended. In a zone of fixed offset, with both clock readings on the same
  local day, whose midnight is \<open>m\<close>, and both aggregations answered,
  \<open>total_today\<close> is the number \<open>n\<close> of the user's events in a half-open
  window \<open>[lo, hi)\<close>: \<open>lo\<close> lies in the first second of the day and \<open>hi\<close> in its
  last second. So every event from 00:00:01.000 up to, but excluding, 23:59:59.000 is
  counted, no event before 00:00:00.000 and none at 23:59:59.999 or later is, and when
  no event is counted the count entry is absent.
\<close>

theorem getStatsAndLastProduct_total_today_window:
  assumes "distinct (map uid (users db))" and "u \<in> set (users db)"
    and "localDayStart tz now1 = m" and "localDayStart tz now2 = m"
  shows "\<exists>lo hi n.
           m \<le> lo \<and> lo \<le> m + 999 \<and> m + 86399000 \<le> hi \<and> hi \<le> m + 86399999 \<and>
           n = length (filter (\<lambda>e. lo \<le> date_scan e \<and> date_scan e < hi) (history u)) \<and>
           getStatsAndLastProduct None None (fixedZone tz) now1 now2 db (WellFormed (uid u)) =
             Responded 200
               (StatsData
                  (map LastScan (lastScanPipeline db (uid u)) @
                   (if n = 0 then [] else [TotalToday n])))"
proof (intro exI conjI)
  let ?n = "length (filter (\<lambda>e. setHours (fixedZone tz) now1 0 0 0 \<le> date_scan e \<and>
                                  date_scan e < setHours (fixedZone tz) now2 23 59 59) (history u))"
  show "?n = ?n" ..
  show "getStatsAndLastProduct None None (fixedZone tz) now1 now2 db (WellFormed (uid u)) =
          Responded 200
            (StatsData
               (map LastScan (lastScanPipeline db (uid u)) @
                (if ?n = 0 then [] else [TotalToday ?n])))"
    using assms(1,2)
    by (simp only: getStatsAndLastProduct_answered todayPipeline_unique count_stage_length)
  show "m \<le> setHours (fixedZone tz) now1 0 0 0" "setHours (fixedZone tz) now1 0 0 0 \<le> m + 999"
    using setHours_midnight [of tz now1] assms(3) by simp_all
  show "m + 86399000 \<le> setHours (fixedZone tz) now2 23 59 59" "setHours (fixedZone tz) now2 23 59 59 \<le> m + 86399999"
    using setHours_last_second [of tz now2] assms(4) by simp_all
qed


lemma db1_distinct: "distinct (map uid (users db1))"
  by (simp add: db1_def alice_def bob_def carol_def dave_def)

theorem getStatsAndLastProduct_last_scan_latest_witness:
  "distinct (map uid (users db1)) \<and> bob \<in> set (users db1) \<and> history bob \<noteq> [] \<and>
   (\<exists>e rest.
      getStatsAndLastProduct None None (fixedZone 0) 100 100 db1 (WellFormed 2) =
        Responded 200
          (StatsData
             (LastScan \<lparr>ls_id = 2, ls_number_scan = 3, ls_history = [e],
                        ls_productInfo = lookup_product (products db1) [e]\<rparr> # rest)) \<and>
      e \<in> set (history bob) \<and> 90 \<le> date_scan e)"
proof -
  have h2: "bob \<in> set (users db1)" by (simp add: db1_def)
  have h3: "history bob \<noteq> []" by (simp add: bob_def)
  have in90: "\<lparr>product = 8, date_scan = 90, owner = False\<rparr> \<in> set (history bob)"
    by (simp add: bob_def)
  from getStatsAndLastProduct_last_scan_latest [OF db1_distinct h2 h3, of "fixedZone 0" 100 100]
  obtain e rest where
    r: "getStatsAndLastProduct None None (fixedZone 0) 100 100 db1 (WellFormed (uid bob)) =
          Responded 200
            (StatsData
               (LastScan \<lparr>ls_id = uid bob, ls_number_scan = number_scan bob, ls_history = [e],
                          ls_productInfo = lookup_product (products db1) [e]\<rparr> # rest))"
    and m: "e \<in> set (history bob)"
    and mx: "\<forall>e'\<in>set (history bob). date_scan e' \<le> date_scan e"
    by blast
  from mx in90 have "90 \<le> date_scan e" by fastforce
  moreover have "uid bob = 2" "number_scan bob = 3" by (simp_all add: bob_def)
  ultimately show ?thesis
    using db1_distinct h2 h3 r m by auto
qed

theorem getStatsAndLastProduct_unknown_user_witness:
  "findUser (users db0) 2 = None \<and>
   getStatsAndLastProduct None None (fixedZone 0) 100 100 db0 (WellFormed 2) = Responded 200 (StatsData [])"
proof -
  have h: "findUser (users db0) 2 = None"
    by (simp add: findUser_def db0_def alice_def)
  from getStatsAndLastProduct_unknown_user [OF h] h show ?thesis by simp
qed

theorem getStatsAndLastProduct_empty_history_witness:
  "distinct (map uid (users db1)) \<and> alice \<in> set (users db1) \<and> history alice = [] \<and>
   getStatsAndLastProduct None None (fixedZone 0) 100 100 db1 (WellFormed 1) = Responded 200 (StatsData [])"
proof -
  have h2: "alice \<in> set (users db1)" by (simp add: db1_def)
  have h3: "history alice = []" by (simp add: alice_def)
  have "uid alice = 1" by (simp add: alice_def)
  with getStatsAndLastProduct_empty_history [OF db1_distinct h2 h3, of "fixedZone 0" 100 100]
  have "getStatsAndLastProduct None None (fixedZone 0) 100 100 db1 (WellFormed 1) =
          Responded 200 (StatsData [])"
    by auto
  with db1_distinct h2 h3 show ?thesis by simp
qed

lemma localDayStart_example: "localDayStart 3600000 43200500 = - 3600000"
  by (simp add: localDayStart_def msPerDay_def)

theorem getStatsAndLastProduct_total_today_window_witness:
  "distinct (map uid (users db1)) \<and> bob \<in> set (users db1) \<and>
   localDayStart 3600000 43200500 = - 3600000 \<and>
   getStatsAndLastProduct None None (fixedZone 3600000) 43200500 43200500 db1 (WellFormed (uid bob)) =
     Responded 200
       (StatsData (map LastScan (lastScanPipeline db1 (uid bob)) @ [TotalToday 3]))"
proof -
  have h2: "bob \<in> set (users db1)" by (simp add: db1_def)
  from getStatsAndLastProduct_total_today_window
         [OF db1_distinct h2 localDayStart_example localDayStart_example]
  obtain lo hi n where
    lo: "lo \<le> - 3600000 + 999" and hi: "- 3600000 + 86399000 \<le> hi"
    and n: "n = length (filter (\<lambda>e. lo \<le> date_scan e \<and> date_scan e < hi) (history bob))"
    and r: "getStatsAndLastProduct None None (fixedZone 3600000) 43200500 43200500 db1
              (WellFormed (uid bob)) =
            Responded 200
              (StatsData
                 (map LastScan (lastScanPipeline db1 (uid bob)) @
                  (if n = 0 then [] else [TotalToday n])))"
    by blast
  from lo hi n have "n = 3" by (simp add: bob_def)
  with r db1_distinct h2 localDayStart_example show ?thesis by simp
qed

text \<open>
  Claim C2, as stated, fails: the request runs at 12:00:00.000, the user's only event is
  at 23:59:59.000 of that day, inside the closed interval of the claim, and the response
  carries no count entry. The upper bound of the match is exclusive.
\<close>

theorem getStatsAndLastProduct_last_second_counterexample:
  "localDayStart 0 43200000 = 0 \<and>
   history carol = [\<lparr>product = 7, date_scan = 86399000, owner = False\<rparr>] \<and>
   (0::int) \<le> 86399000 \<and> (86399000::int) \<le> 0 + 23 * 3600000 + 59 * 60000 + 59 * 1000 \<and>
   getStatsAndLastProduct None None (fixedZone 0) 43200000 43200000 db1 (WellFormed 3) =
     Responded 200
       (StatsData
          [LastScan \<lparr>ls_id = 3, ls_number_scan = 1,
                     ls_history = [\<lparr>product = 7, date_scan = 86399000, owner = False\<rparr>],
                     ls_productInfo = [echalotte]\<rparr>])"
  by (simp add: localDayStart_def msPerDay_def setHours_def fixedZone_def Let_def carol_def db1_def alice_def bob_def
        dave_def echalotte_def getStatsAndLastProduct_def User_aggregate_def
        lastScanPipeline_def todayPipeline_def match_id_def unwind_history_def
        sort_date_scan_def project_last_def slice_last_def with_productInfo_def
        lookup_product_def match_today_def count_stage_def)

text \<open>
  The lower bound keeps the milliseconds of the clock reading as well: a request at
  12:00:00.500 does not count an event at 00:00:00.000 of the same day.
\<close>

lemma getStatsAndLastProduct_midnight_event_dropped:
  "localDayStart 0 43200500 = 0 \<and>
   history dave = [\<lparr>product = 7, date_scan = 0, owner = False\<rparr>] \<and>
   getStatsAndLastProduct None None (fixedZone 0) 43200500 43200500 db1 (WellFormed 4) =
     Responded 200
       (StatsData
          [LastScan \<lparr>ls_id = 4, ls_number_scan = 1,
                     ls_history = [\<lparr>product = 7, date_scan = 0, owner = False\<rparr>],
                     ls_productInfo = [echalotte]\<rparr>])"
  by (simp add: localDayStart_def msPerDay_def setHours_def fixedZone_def Let_def carol_def db1_def alice_def bob_def
        dave_def echalotte_def getStatsAndLastProduct_def User_aggregate_def
        lastScanPipeline_def todayPipeline_def match_id_def unwind_history_def
        sort_date_scan_def project_last_def slice_last_def with_productInfo_def
        lookup_product_def match_today_def count_stage_def)

text \<open>A request in the time zone UTC+1 for a user with three events on that day.\<close>

lemma getStatsAndLastProduct_example:
  "getStatsAndLastProduct None None (fixedZone 3600000) 43200500 43200500 db1 (WellFormed 2) =
     Responded 200
       (StatsData
          [LastScan \<lparr>ls_id = 2, ls_number_scan = 3,
                     ls_history = [\<lparr>product = 8, date_scan = 90, owner = False\<rparr>],
                     ls_productInfo = []\<rparr>,
           TotalToday 3])"
  by (simp add: localDayStart_def msPerDay_def setHours_def fixedZone_def Let_def carol_def db1_def alice_def bob_def
        dave_def echalotte_def getStatsAndLastProduct_def User_aggregate_def
        lastScanPipeline_def todayPipeline_def match_id_def unwind_history_def
        sort_date_scan_def project_last_def slice_last_def with_productInfo_def
        lookup_product_def match_today_def count_stage_def)

section \<open>Properties of the read paths\<close>





section \<open>Properties of login\<close>

lemma login_answered:
  "login None compare db m pw =
     (case find (\<lambda>u. mail u = m) (users db) of
        None \<Rightarrow> (NoWrite, Responded 401 (Refused UnknownUser))
      | Some u \<Rightarrow>
          (case compare pw (password u) of
             Rejected e \<Rightarrow> (NoWrite, Responded 500 (Failure e))
           | Resolved valid \<Rightarrow>
               if valid
               then (SetUser \<lparr>userId = uid u, session_mail = mail u, session_roles = roles u\<rparr>,
                     Responded 200 (LoginData Authenticated (uid u) (roles u)))
               else (NoWrite, Responded 401 (Refused WrongPassword))))"
  by (simp add: login_def User_findOne_mail_def split: option.splits promise.splits)

lemma find_mail_rehash:
  "find (\<lambda>u. mail u = m) (map (\<lambda>v. v\<lparr>password := g v\<rparr>) us) =
     map_option (\<lambda>v. v\<lparr>password := g v\<rparr>) (find (\<lambda>u. mail u = m) us)"
  by (induction us) auto

text \<open>
  Claim C8. With the store answering: when a user with the mail exists and the password
  verifies against the stored hash, the response is 200 and its payload is the message
  with the user's identifier and roles; the payload is the same whatever hashes are
  stored, as long as the password verifies, so it carries nothing of the hash. When the
  user exists and the password does not verify the response is 401, and when no user has
  the mail the response is 401.
\<close>

theorem login_responses:
  "(find (\<lambda>u. mail u = m) (users db) = Some u \<and> compare pw (password u) = Resolved True \<longrightarrow>
      snd (login None compare db m pw) =
        Responded 200 (LoginData Authenticated (uid u) (roles u)) \<and>
      (\<forall>g. compare pw (g u) = Resolved True \<longrightarrow>
         snd (login None compare (db\<lparr>users := map (\<lambda>v. v\<lparr>password := g v\<rparr>) (users db)\<rparr>) m pw) =
           snd (login None compare db m pw))) \<and>
   (find (\<lambda>u. mail u = m) (users db) = Some u \<and> compare pw (password u) = Resolved False \<longrightarrow>
      snd (login None compare db m pw) = Responded 401 (Refused WrongPassword)) \<and>
   (find (\<lambda>u. mail u = m) (users db) = None \<longrightarrow>
      snd (login None compare db m pw) = Responded 401 (Refused UnknownUser))"
  by (simp add: login_answered find_mail_rehash)

theorem login_responses_witness:
  "find (\<lambda>u. mail u = ''alice@example.org'') (users db0) = Some alice \<and>
   prefix_compare ''secret'' (password alice) = Resolved True \<and>
   snd (login None prefix_compare db0 ''alice@example.org'' ''secret'') =
     Responded 200 (LoginData Authenticated 1 [''admin'']) \<and>
   prefix_compare ''guess'' (password alice) = Resolved False \<and>
   snd (login None prefix_compare db0 ''alice@example.org'' ''guess'') =
     Responded 401 (Refused WrongPassword) \<and>
   find (\<lambda>u. mail u = ''nobody@example.org'') (users db0) = None \<and>
   snd (login None prefix_compare db0 ''nobody@example.org'' ''secret'') =
     Responded 401 (Refused UnknownUser)"
proof -
  have f: "find (\<lambda>u. mail u = ''alice@example.org'') (users db0) = Some alice"
    by (simp add: db0_def alice_def)
  have t: "prefix_compare ''secret'' (password alice) = Resolved True"
    by (simp add: prefix_compare_def alice_def)
  have w: "prefix_compare ''guess'' (password alice) = Resolved False"
    by (simp add: prefix_compare_def alice_def)
  have n: "find (\<lambda>u. mail u = ''nobody@example.org'') (users db0) = None"
    by (simp add: db0_def alice_def)
  have a: "uid alice = 1" "roles alice = [''admin'']" by (simp_all add: alice_def)
  from login_responses [of "''alice@example.org''" db0 alice prefix_compare "''secret''"] f t a
  have 1: "snd (login None prefix_compare db0 ''alice@example.org'' ''secret'') =
     Responded 200 (LoginData Authenticated 1 [''admin''])"
    by simp
  from login_responses [of "''alice@example.org''" db0 alice prefix_compare "''guess''"] f w
  have 2: "snd (login None prefix_compare db0 ''alice@example.org'' ''guess'') =
     Responded 401 (Refused WrongPassword)"
    by simp
  from login_responses [of "''nobody@example.org''" db0 alice prefix_compare "''secret''"] n
  have 3: "snd (login None prefix_compare db0 ''nobody@example.org'' ''secret'') =
     Responded 401 (Refused UnknownUser)"
    by simp
  from f t w n 1 2 3 show ?thesis by simp
qed

text \<open>
  Claim C10. The handler responds 200 exactly when the store answers, a user with the
  mail exists and the password verifies; it assigns the session user exactly when it
  responds 200, and then the session holds the identifier, mail and roles of that user.
  On a 401, and on any response other than 200, nothing is assigned and the session is
  what it was.
\<close>

theorem login_session_written_iff_success:
  "((\<exists>b. snd (login flt compare db m pw) = Responded 200 b) \<longleftrightarrow>
      (flt = None \<and>
       (\<exists>u. find (\<lambda>u. mail u = m) (users db) = Some u \<and>
            compare pw (password u) = Resolved True))) \<and>
   ((\<exists>su. fst (login flt compare db m pw) = SetUser su) \<longleftrightarrow>
      (\<exists>b. snd (login flt compare db m pw) = Responded 200 b)) \<and>
   (flt = None \<and> find (\<lambda>u. mail u = m) (users db) = Some u \<and>
    compare pw (password u) = Resolved True \<longrightarrow>
      session_after s (fst (login flt compare db m pw)) =
        Some \<lparr>userId = uid u, session_mail = mail u, session_roles = roles u\<rparr>) \<and>
   ((\<exists>b. snd (login flt compare db m pw) = Responded 401 b) \<longrightarrow>
      fst (login flt compare db m pw) = NoWrite \<and>
      session_after s (fst (login flt compare db m pw)) = s) \<and>
   ((\<forall>b. snd (login flt compare db m pw) \<noteq> Responded 200 b) \<longrightarrow>
      session_after s (fst (login flt compare db m pw)) = s)"
  by (auto simp: login_def User_findOne_mail_def split: option.splits promise.splits)


theorem login_session_written_iff_success_witness:
  "find (\<lambda>u. mail u = ''alice@example.org'') (users db0) = Some alice \<and>
   prefix_compare ''secret'' (password alice) = Resolved True \<and>
   session_after None (fst (login None prefix_compare db0 ''alice@example.org'' ''secret'')) =
     Some \<lparr>userId = 1, session_mail = ''alice@example.org'', session_roles = [''admin'']\<rparr> \<and>
   snd (login None prefix_compare db0 ''alice@example.org'' ''guess'') =
     Responded 401 (Refused WrongPassword) \<and>
   fst (login None prefix_compare db0 ''alice@example.org'' ''guess'') = NoWrite \<and>
   session_after None (fst (login None prefix_compare db0 ''alice@example.org'' ''guess'')) =
     None"
proof -
  have f: "find (\<lambda>u. mail u = ''alice@example.org'') (users db0) = Some alice"
    by (simp add: db0_def alice_def)
  have t: "prefix_compare ''secret'' (password alice) = Resolved True"
    by (simp add: prefix_compare_def alice_def)
  have r: "snd (login None prefix_compare db0 ''alice@example.org'' ''guess'') =
     Responded 401 (Refused WrongPassword)"
    by (simp add: login_answered f prefix_compare_def alice_def)
  have a: "uid alice = 1" "roles alice = [''admin'']" "mail alice = ''alice@example.org''"
    by (simp_all add: alice_def)
  from login_session_written_iff_success
         [of None prefix_compare db0 "''alice@example.org''" "''secret''" alice None] f t a
  have 1: "session_after None
             (fst (login None prefix_compare db0 ''alice@example.org'' ''secret'')) =
     Some \<lparr>userId = 1, session_mail = ''alice@example.org'', session_roles = [''admin'']\<rparr>"
    by simp
  from login_session_written_iff_success
         [of None prefix_compare db0 "''alice@example.org''" "''guess''" alice None] r
  have 2: "fst (login None prefix_compare db0 ''alice@example.org'' ''guess'') = NoWrite \<and>
     session_after None (fst (login None prefix_compare db0 ''alice@example.org'' ''guess'')) =
     None"
    by blast
  from f t r 1 2 show ?thesis by simp
qed

section \<open>Properties of editInformationOfUser\<close>

lemma spread_with_id_lookup:
  "map_of (spread_with_id req_body params_id) ''_id'' = Some (JId params_id)"
  by (simp add: spread_with_id_def update_conv')

lemma update_distinct_entry:
  "distinct (map fst al) \<Longrightarrow> (k, w) \<in> set (AList.update k v al) \<Longrightarrow> w = v"
  by (metis distinct_update map_of_eq_Some_iff update_Some_unfold)

lemma castIdEntry_spread:
  "castIdEntry (spread_with_id req_body (WellFormed i)) = Inr (Some i)"
  by (simp add: castIdEntry_def spread_with_id_lookup)

lemma findUser_uid: "findUser us i = Some u \<Longrightarrow> uid u = i"
  by (auto simp: findUser_def find_Some_iff)

lemma map_uid_updateFirst:
  "(\<And>u. uid u = i \<Longrightarrow> uid (f u) = i) \<Longrightarrow>
   map uid (updateFirst (\<lambda>u. uid u = i) f us) = map uid us"
  by (induction us) auto

lemma User_updateOne_doc_uids:
  assumes r: "User_updateOne_doc sch flt us rid doc = Resolved us'"
  shows "map uid us' = map uid us"
proof (cases "us' = us")
  case True
  then show ?thesis by simp
next
  case False
  with r obtain i u u' where
    f: "findUser us i = Some u" and k: "uid u' = uid u"
    and us': "us' = updateFirst (\<lambda>v. uid v = i) (\<lambda>_. u') us"
    by (auto simp: User_updateOne_doc_def split: option.splits sum.splits if_splits)
  from f k have "uid u' = i" by (simp add: findUser_uid)
  then show ?thesis by (simp add: us' map_uid_updateFirst)
qed

lemma editInformationOfUser_uids:
  "map uid (users (fst (editInformationOfUser sch flt db params_id req_body))) =
     map uid (users db)"
  by (auto simp: editInformationOfUser_def split: promise.splits
        dest: User_updateOne_doc_uids)

lemma editInformationOfUser_known_user:
  assumes "findUser (users db) i = Some u"
  shows "editInformationOfUser sch None db (WellFormed i) req_body =
           (case castRest sch (spread_with_id req_body (WellFormed i)) of
              Inl e \<Rightarrow> (db, Responded 400 (Failure e))
            | Inr upd \<Rightarrow>
                (case applyRest sch upd u of
                   Inl e \<Rightarrow> (db, Responded 400 (Failure e))
                 | Inr u' \<Rightarrow>
                     if uid u' = uid u
                     then (db\<lparr>users := updateFirst (\<lambda>v. uid v = i) (\<lambda>_. u') (users db)\<rparr>,
                           Responded 200 (Message ProfileUpdated))
                     else (db, Responded 400 (Failure ImmutableField))))"
  using assms findUser_uid [OF assms]
  by (simp add: editInformationOfUser_def User_updateOne_doc_def castIdEntry_spread
        id_accepted_def split: sum.splits)

text \<open>
  Claim C9. Whatever the body, the update document has the path parameter under
  \<^verbatim>\<open>_id\<close>, and for a body that is a JSON object (its keys are distinct) that is its
  only \<^verbatim>\<open>_id\<close> entry. So for an existing user the \<^verbatim>\<open>_id\<close> of the update is
  the one the matched document has: the store accepts it, and the outcome of the edit
  is what the schema and the store make of the rest of the document. Whatever the
  schema, the body and the outcome, the documents of the collection keep their
  identifiers.
\<close>

theorem editInformationOfUser_keeps_id:
  "map_of (spread_with_id req_body params_id) ''_id'' = Some (JId params_id) \<and>
   (distinct (map fst req_body) \<longrightarrow>
      (\<forall>v. (''_id'', v) \<in> set (spread_with_id req_body params_id) \<longrightarrow> v = JId params_id)) \<and>
   (findUser (users db) i = Some u \<longrightarrow>
      id_accepted (Some i) u \<and>
      castIdEntry (spread_with_id req_body (WellFormed i)) = Inr (Some i) \<and>
      editInformationOfUser sch None db (WellFormed i) req_body =
        (case castRest sch (spread_with_id req_body (WellFormed i)) of
           Inl e \<Rightarrow> (db, Responded 400 (Failure e))
         | Inr upd \<Rightarrow>
             (case applyRest sch upd u of
                Inl e \<Rightarrow> (db, Responded 400 (Failure e))
              | Inr u' \<Rightarrow>
                  if uid u' = uid u
                  then (db\<lparr>users := updateFirst (\<lambda>v. uid v = i) (\<lambda>_. u') (users db)\<rparr>,
                        Responded 200 (Message ProfileUpdated))
                  else (db, Responded 400 (Failure ImmutableField))))) \<and>
   map uid (users (fst (editInformationOfUser sch flt db params_id req_body))) =
     map uid (users db)"
proof (intro conjI impI allI)
  show "map_of (spread_with_id req_body params_id) ''_id'' = Some (JId params_id)"
    by (rule spread_with_id_lookup)
  show "map uid (users (fst (editInformationOfUser sch flt db params_id req_body))) =
          map uid (users db)"
    by (rule editInformationOfUser_uids)
  show "castIdEntry (spread_with_id req_body (WellFormed i)) = Inr (Some i)"
    by (rule castIdEntry_spread)
next
  fix v
  assume "distinct (map fst req_body)"
    and "(''_id'', v) \<in> set (spread_with_id req_body params_id)"
  then show "v = JId params_id"
    unfolding spread_with_id_def by (rule update_distinct_entry)
next
  assume f: "findUser (users db) i = Some u"
  then show "id_accepted (Some i) u"
    by (simp add: id_accepted_def findUser_uid)
  from f show "editInformationOfUser sch None db (WellFormed i) req_body =
        (case castRest sch (spread_with_id req_body (WellFormed i)) of
           Inl e \<Rightarrow> (db, Responded 400 (Failure e))
         | Inr upd \<Rightarrow>
             (case applyRest sch upd u of
                Inl e \<Rightarrow> (db, Responded 400 (Failure e))
              | Inr u' \<Rightarrow>
                  if uid u' = uid u
                  then (db\<lparr>users := updateFirst (\<lambda>v. uid v = i) (\<lambda>_. u') (users db)\<rparr>,
                        Responded 200 (Message ProfileUpdated))
                  else (db, Responded 400 (Failure ImmutableField))))"
    by (rule editInformationOfUser_known_user)
qed

theorem editInformationOfUser_keeps_id_witness:
  "distinct (map fst [(''_id'', JId (WellFormed 99)), (''fullname'', JStr ''Alicia'')]) \<and>
   findUser (users db0) 1 = Some alice \<and>
   spread_with_id [(''_id'', JId (WellFormed 99)), (''fullname'', JStr ''Alicia'')]
       (WellFormed 1) =
     [(''_id'', JId (WellFormed 1)), (''fullname'', JStr ''Alicia'')] \<and>
   editInformationOfUser fullname_schema None db0 (WellFormed 1)
       [(''_id'', JId (WellFormed 99)), (''fullname'', JStr ''Alicia'')] =
     (db0\<lparr>users := [alice\<lparr>fullname := ''Alicia''\<rparr>]\<rparr>, Responded 200 (Message ProfileUpdated)) \<and>
   map uid (users (fst (editInformationOfUser fullname_schema None db0 (WellFormed 1)
       [(''_id'', JId (WellFormed 99)), (''fullname'', JStr ''Alicia'')]))) = [1]"
proof -
  let ?b = "[(''_id'', JId (WellFormed 99)), (''fullname'', JStr ''Alicia'')]"
  have d: "distinct (map fst ?b)" by simp
  have f: "findUser (users db0) 1 = Some alice"
    by (simp add: findUser_def db0_def alice_def)
  have s: "spread_with_id ?b (WellFormed 1) =
             [(''_id'', JId (WellFormed 1)), (''fullname'', JStr ''Alicia'')]"
    by (simp add: spread_with_id_def)
  have c: "castRest fullname_schema (spread_with_id ?b (WellFormed 1)) = Inr (Some ''Alicia'')"
    by (simp add: fullname_schema_def spread_with_id_def)
  have a: "applyRest fullname_schema (Some ''Alicia'') alice = Inr (alice\<lparr>fullname := ''Alicia''\<rparr>)"
    by (simp add: fullname_schema_def)
  have u: "updateFirst (\<lambda>v. uid v = 1) (\<lambda>_. alice\<lparr>fullname := ''Alicia''\<rparr>) (users db0) =
             [alice\<lparr>fullname := ''Alicia''\<rparr>]"
    by (simp add: db0_def alice_def)
  from editInformationOfUser_keeps_id [of ?b "WellFormed 1" db0 1 alice fullname_schema None] f
  have "editInformationOfUser fullname_schema None db0 (WellFormed 1) ?b =
          (case castRest fullname_schema (spread_with_id ?b (WellFormed 1)) of
             Inl e \<Rightarrow> (db0, Responded 400 (Failure e))
           | Inr upd \<Rightarrow>
               (case applyRest fullname_schema upd alice of
                  Inl e \<Rightarrow> (db0, Responded 400 (Failure e))
                | Inr u' \<Rightarrow>
                    if uid u' = uid alice
                    then (db0\<lparr>users := updateFirst (\<lambda>v. uid v = 1) (\<lambda>_. u') (users db0)\<rparr>,
                          Responded 200 (Message ProfileUpdated))
                    else (db0, Responded 400 (Failure ImmutableField))))"
    by blast
  then have e: "editInformationOfUser fullname_schema None db0 (WellFormed 1) ?b =
     (db0\<lparr>users := [alice\<lparr>fullname := ''Alicia''\<rparr>]\<rparr>, Responded 200 (Message ProfileUpdated))"
    by (simp only: c a sum.case u) simp
  have "uid alice = 1" by (simp add: alice_def)
  with d f s e show ?thesis by simp
qed

text \<open>
  Without the assignment of the path parameter, the same body would reach the store with
  its own \<^verbatim>\<open>_id\<close> and the update would be refused.
\<close>

lemma User_updateOne_doc_foreign_id_refused:
  "User_updateOne_doc fullname_schema None (users db0) (WellFormed 1)
     [(''_id'', JId (WellFormed 99)), (''fullname'', JStr ''Alicia'')] =
   Rejected ImmutableField"
  by (simp add: User_updateOne_doc_def castIdEntry_def fullname_schema_def findUser_def
        db0_def alice_def id_accepted_def)

end
